theory Spec2Isabelle
  imports Main
begin

section \<open>Data model (types.ts)\<close>

text \<open>
  An \<open>ObjectLiteral\<close> of named query parameters is an association list from parameter
  name to its (string-rendered) value. A TypeORM \<open>Brackets\<close> object is opaque to the
  loader and is identified by a label.
\<close>

type_synonym ObjectLiteral = "(string \<times> string) list"

datatype Brackets = Brackets string

text \<open>
  \<open>ChainableWhereExpression = LoaderWhereExpression | Brackets\<close>. The manager tells the
  two apart by the \<open>isLoaderWhereExpression\<close> flag of the object.
\<close>

datatype ChainableWhereExpression =
    LoaderWhereExpression bool string "ObjectLiteral option"
  | BracketsExpression Brackets

text \<open>\<open>ChainableWhereArgument = string | Brackets\<close>.\<close>

datatype ChainableWhereArgument = ConditionString string | BracketsArgument Brackets

text \<open>
  The enum \<open>LoaderSearchMethod\<close> is declared in \<open>enums/LoaderSearchMethod\<close>, which is
  not among the sources. A member of a TypeScript enum is a number or a string at run
  time, and that run-time value is what the operator \<open>||\<close> inspects.
\<close>

datatype LoaderSearchMethod = NumberMember int | StringMember string

fun truthy :: "LoaderSearchMethod \<Rightarrow> bool" where
  "truthy (NumberMember n) = (n \<noteq> 0)"
| "truthy (StringMember s) = (s \<noteq> [])"

text \<open>One entry of \<open>searchColumns: Array<string | Array<string>>\<close>.\<close>

datatype SearchColumn = Column string | Columns "string list"

record SearchOptions =
  searchColumns :: "SearchColumn list"
  searchText :: string
  searchMethod :: "LoaderSearchMethod option"
  caseSensitive :: "bool option"

text \<open>\<open>GraphQLEntityFields\<close>: field name to children and optional arguments.\<close>

datatype FieldNode = FieldNode "(string \<times> FieldNode) list" "ObjectLiteral option"

type_synonym GraphQLEntityFields = "(string \<times> FieldNode) list"

text \<open>
  The manager takes the first element off the \<open>andWhere\<close> array of a request in place,
  and several requests may hold the same array object. So \<open>andWhere\<close> is a reference,
  and the array objects live in a store kept in the state (\<open>arrays\<close> below). The
  \<open>orWhere\<close> and \<open>search\<close> arrays are only read.
\<close>

record QueryPredicates =
  andWhere :: nat
  orWhere :: "ChainableWhereExpression list"
  search :: "SearchOptions list"

text \<open>\<open>entity: Function | string\<close>: a class (read through its \<open>name\<close>) or a name.\<close>

datatype Entity = EntityName string | EntityClass string

text \<open>
  The fields of a queue item that the manager reads. The two callbacks are functions of
  the caller; each is identified by a number, and calling one is recorded in the state.
\<close>

record ChainableQueueItem =
  many :: bool
  key :: string
  item_fields :: "GraphQLEntityFields option"
  predicates :: QueryPredicates
  resolve :: nat
  reject :: nat
  entity :: Entity

text \<open>A promise object is identified by a number.\<close>

type_synonym Promise = nat

record QueryMeta =
  meta_key :: string
  meta_fields :: "GraphQLEntityFields option"
  found :: bool
  meta_item :: "Promise option"

section \<open>The TypeORM query builder, as the manager sees it\<close>

text \<open>
  \<open>SelectQueryBuilder\<close> belongs to TypeORM. The manager only calls its methods, so a
  builder is its alias and the sequence of calls made on it, in order.
\<close>

datatype WhereArg = WhereString string | WhereObject ChainableWhereExpression

datatype QbCall =
    Select "string list"
  | Where WhereArg "ObjectLiteral option"
  | AndWhere WhereArg "ObjectLiteral option"
  | OrWhere WhereArg "ObjectLiteral option"
  | GetMany
  | GetOne

record SelectQueryBuilder =
  qb_alias :: string
  calls :: "QbCall list"

definition qb_call :: "QbCall \<Rightarrow> SelectQueryBuilder \<Rightarrow> SelectQueryBuilder" where
  "qb_call c qb = qb\<lparr>calls := calls qb @ [c]\<rparr>"

text \<open>
  \<open>getRepository(name).createQueryBuilder(name).select([])\<close>. TypeORM throws when the
  entity manager has no repository of that name; which names it refuses, and with what
  error, is a parameter. A thrown error is the \<open>Inl\<close> of a sum.
\<close>

definition createTypeORMQueryBuilder ::
  "(string \<Rightarrow> string option) \<Rightarrow> string \<Rightarrow> string + SelectQueryBuilder" where
  "createTypeORMQueryBuilder repositoryFault name =
     (case repositoryFault name of
        Some e \<Rightarrow> Inl e
      | None \<Rightarrow> Inr \<lparr>qb_alias = name, calls = [Select []]\<rparr>)"

section \<open>Predicate and condition builder\<close>

fun breakDownWhereExpression ::
  "ChainableWhereExpression \<Rightarrow> WhereArg \<times> ObjectLiteral option" where
  "breakDownWhereExpression (LoaderWhereExpression isLoader cond ps) =
     (if isLoader then (WhereString cond, ps)
      else (WhereObject (LoaderWhereExpression isLoader cond ps), None))"
| "breakDownWhereExpression (BracketsExpression b) =
     (WhereObject (BracketsExpression b), None)"

definition qbWhere :: "ChainableWhereExpression \<Rightarrow> QbCall" where
  "qbWhere c = (case breakDownWhereExpression c of (w, ps) \<Rightarrow> Where w ps)"

definition qbAndWhere :: "ChainableWhereExpression \<Rightarrow> QbCall" where
  "qbAndWhere c = (case breakDownWhereExpression c of (w, ps) \<Rightarrow> AndWhere w ps)"

definition qbOrWhere :: "ChainableWhereExpression \<Rightarrow> QbCall" where
  "qbOrWhere c = (case breakDownWhereExpression c of (w, ps) \<Rightarrow> OrWhere w ps)"

text \<open>
  \<open>_addAndWhereConditions\<close> shifts the array it is given, so it returns the builder
  together with what is left of that array. A where expression is an object, hence
  never falsy: \<open>!initialWhere\<close> holds exactly when the array was empty.
\<close>

fun addAndWhereConditions ::
  "SelectQueryBuilder \<Rightarrow> ChainableWhereExpression list
     \<Rightarrow> SelectQueryBuilder \<times> ChainableWhereExpression list" where
  "addAndWhereConditions qb [] = (qb, [])"
| "addAndWhereConditions qb (initialWhere # conditions) =
     (fold (\<lambda>c q. qb_call (qbAndWhere c) q) conditions (qb_call (qbWhere initialWhere) qb),
      conditions)"

definition addOrWhereConditions ::
  "SelectQueryBuilder \<Rightarrow> ChainableWhereExpression list \<Rightarrow> SelectQueryBuilder" where
  "addOrWhereConditions qb conditions = fold (\<lambda>c q. qb_call (qbOrWhere c) q) conditions qb"

text \<open>
  The formatter (\<open>lib/Formatter\<close>) is not among the sources; the manager's two calls
  into it are parameters.
\<close>

record Formatter =
  formatSearchColumns :: "SearchColumn list \<Rightarrow> string \<Rightarrow> bool option \<Rightarrow> string list"
  getSearchMethodMapping :: "LoaderSearchMethod \<Rightarrow> string \<Rightarrow> string"

text \<open>\<open>Array.prototype.join\<close>\<close>

fun join :: "string \<Rightarrow> string list \<Rightarrow> string" where
  "join sep [] = []"
| "join sep [x] = x"
| "join sep (x # y # ys) = x @ sep @ join sep (y # ys)"

text \<open>\<open>searchMethod || this._defaultLoaderSearchMethod\<close>\<close>

definition methodOrDefault ::
  "LoaderSearchMethod option \<Rightarrow> LoaderSearchMethod \<Rightarrow> LoaderSearchMethod" where
  "methodOrDefault m dflt =
     (case m of None \<Rightarrow> dflt | Some x \<Rightarrow> if truthy x then x else dflt)"

record SearchClause =
  query :: string
  params :: ObjectLiteral

definition formatSearchCondition ::
  "Formatter \<Rightarrow> LoaderSearchMethod \<Rightarrow> string \<Rightarrow> SearchOptions \<Rightarrow> SearchClause" where
  "formatSearchCondition fmt dflt als c =
     (let method = methodOrDefault (searchMethod c) dflt;
          likeQueryStrings = formatSearchColumns fmt (searchColumns c) als (caseSensitive c);
          searchTextParam = getSearchMethodMapping fmt method (searchText c)
      in \<lparr>query = ''('' @ join '' OR '' likeQueryStrings @ '')'',
          params = [(''searchText'', searchTextParam)]\<rparr>)"

definition formatSearchConditions ::
  "Formatter \<Rightarrow> LoaderSearchMethod \<Rightarrow> SearchOptions list \<Rightarrow> string \<Rightarrow> SearchClause list" where
  "formatSearchConditions fmt dflt conditions als =
     map (formatSearchCondition fmt dflt als) conditions"

definition addSearchConditions ::
  "Formatter \<Rightarrow> LoaderSearchMethod \<Rightarrow> SelectQueryBuilder \<Rightarrow> string \<Rightarrow> SearchOptions list
     \<Rightarrow> SelectQueryBuilder" where
  "addSearchConditions fmt dflt qb als searchConditions =
     fold (\<lambda>c q. qb_call (AndWhere (WhereString (query c)) (Some (params c))) q)
       (formatSearchConditions fmt dflt searchConditions als) qb"

section \<open>The manager and its run-time environment\<close>

text \<open>
  What \<open>getMany()\<close> or \<open>getOne()\<close> of one request eventually does: its promise is
  fulfilled with a value or rejected with an error.
\<close>

datatype Settlement = Fulfilled string | Rejected string

text \<open>One call of a callback: which callback, and the argument it was given.\<close>

datatype Invocation = Invoked nat string

text \<open>
  A request whose query has been built and started inside a transaction and whose
  promise has not settled yet.
\<close>

record PendingQuery =
  request :: ChainableQueueItem
  builder :: SelectQueryBuilder

text \<open>
  The private members \<open>_queue\<close>, \<open>_cache\<close>, \<open>_immediate\<close> and
  \<open>_defaultLoaderSearchMethod\<close> of the manager, followed by the part of the Node
  run time the manager acts on: the immediates that are scheduled and have not run
  (\<open>scheduled\<close>, by handle, with \<open>next_immediate\<close> the next fresh handle), the queries
  in flight, the callback calls made so far, and the \<open>andWhere\<close> array objects by
  reference.
\<close>

record State =
  queue :: "ChainableQueueItem list"
  cache :: "string \<rightharpoonup> Promise"
  immediate :: "nat option"
  defaultLoaderSearchMethod :: LoaderSearchMethod
  scheduled :: "nat list"
  next_immediate :: nat
  inflight :: "PendingQuery list"
  invocations :: "Invocation list"
  arrays :: "nat \<Rightarrow> ChainableWhereExpression list"

text \<open>
  The constructor: \<open>defaultSearchMethod ?? LoaderSearchMethod.ANY_POSITION\<close>. The value of
  the member \<open>ANY_POSITION\<close> is a parameter.
\<close>

definition newManager :: "LoaderSearchMethod \<Rightarrow> LoaderSearchMethod option \<Rightarrow> State" where
  "newManager ANY_POSITION defaultSearchMethod =
     \<lparr>queue = [], cache = Map.empty, immediate = None,
      defaultLoaderSearchMethod =
        (case defaultSearchMethod of None \<Rightarrow> ANY_POSITION | Some m \<Rightarrow> m),
      scheduled = [], next_immediate = 0, inflight = [], invocations = [],
      arrays = (\<lambda>r. [])\<rparr>"

text \<open>
  \<open>clearImmediate\<close> takes the handle off the scheduled immediates (nothing happens when
  it has already run); \<open>setImmediate\<close> schedules a new one and returns its handle.
\<close>

definition clearImmediate :: "nat \<Rightarrow> State \<Rightarrow> State" where
  "clearImmediate h s = s\<lparr>scheduled := removeAll h (scheduled s)\<rparr>"

definition setImmediate :: "State \<Rightarrow> State" where
  "setImmediate s =
     s\<lparr>immediate := Some (next_immediate s),
       scheduled := scheduled s @ [next_immediate s],
       next_immediate := Suc (next_immediate s)\<rparr>"

text \<open>
  \<open>processQueryMeta\<close>. The selection-info parser (\<open>graphqlFields\<close>), \<open>JSON.stringify\<close>
  and the md5 digest in hexadecimal are parameters.
\<close>

definition processQueryMeta ::
  "('info \<Rightarrow> GraphQLEntityFields option)
     \<Rightarrow> (ChainableWhereArgument list \<times> GraphQLEntityFields option \<Rightarrow> string)
     \<Rightarrow> (string \<Rightarrow> string)
     \<Rightarrow> 'info \<Rightarrow> ChainableWhereArgument list \<Rightarrow> State \<Rightarrow> QueryMeta \<times> State" where
  "processQueryMeta graphqlFields stringify md5 info wher s =
     (let flds = graphqlFields info;
          k = md5 (stringify (wher, flds))
      in if cache s k \<noteq> None
         then (\<lparr>meta_key = [], meta_fields = flds, found = True, meta_item = cache s k\<rparr>, s)
         else (\<lparr>meta_key = k, meta_fields = flds, found = False, meta_item = None\<rparr>,
               (case immediate s of None \<Rightarrow> s | Some h \<Rightarrow> clearImmediate h s)))"

definition addQueueItem :: "ChainableQueueItem \<Rightarrow> State \<Rightarrow> State" where
  "addQueueItem item s = setImmediate (s\<lparr>queue := queue s @ [item]\<rparr>)"

definition addCacheItem :: "string \<Rightarrow> Promise \<Rightarrow> State \<Rightarrow> State" where
  "addCacheItem k v s = s\<lparr>cache := (cache s)(k \<mapsto> v)\<rparr>"

text \<open>
  The collaborators of a flush that are not among the sources. Each of them can throw:
  \<^item> \<open>repositoryError\<close>: the error of \<open>getRepository\<close> for an entity name, if any;
  \<^item> \<open>createQuery\<close>: the planner \<open>GraphQLQueryResolver.createQuery\<close>, returning the
    builder or throwing;
  \<^item> \<open>builderError\<close>: the error, if any, thrown while the where, or-where and search
    conditions of a request are put on the builder (by \<open>where\<close>, \<open>andWhere\<close>,
    \<open>orWhere\<close> or by the formatter behind a search clause), given the calls these
    conditions amount to;
  \<^item> \<open>formatter\<close>: the formatter of the manager.
\<close>

record Collaborators =
  repositoryError :: "string \<Rightarrow> string option"
  createQuery ::
    "string \<Rightarrow> GraphQLEntityFields option \<Rightarrow> SelectQueryBuilder \<Rightarrow> string
       \<Rightarrow> string + SelectQueryBuilder"
  builderError :: "QbCall list \<Rightarrow> string option"
  formatter :: Formatter

definition entityName :: "Entity \<Rightarrow> string" where
  "entityName e = (case e of EntityName n \<Rightarrow> n | EntityClass n \<Rightarrow> n)"

text \<open>
  \<open>_resolveQueueItem\<close>, up to the call of \<open>getMany\<close> or \<open>getOne\<close>, for one request and
  the array store it finds. The body is an \<open>async\<close> function: when a call in it throws,
  the body stops there and its promise is rejected (\<open>Inl\<close>); no query is started and
  no callback is attached. \<open>getRepository\<close> and \<open>createQuery\<close> come before
  \<open>_addAndWhereConditions\<close>, so a throw of theirs leaves the array as it was; the
  \<open>shift\<close> is the first thing \<open>_addAndWhereConditions\<close> does, so any later throw finds
  the array already shortened. With no condition of any kind nothing is called on the
  builder or the formatter and nothing can throw there.
\<close>

definition resolveQueueItem ::
  "Collaborators \<Rightarrow> LoaderSearchMethod \<Rightarrow> ChainableQueueItem
     \<Rightarrow> (nat \<Rightarrow> ChainableWhereExpression list)
     \<Rightarrow> (string + PendingQuery) \<times> (nat \<Rightarrow> ChainableWhereExpression list)" where
  "resolveQueueItem ext dflt item arr =
     (let name = entityName (entity item)
      in case createTypeORMQueryBuilder (repositoryError ext) name of
           Inl e \<Rightarrow> (Inl e, arr)
         | Inr qb0 \<Rightarrow>
             (case createQuery ext name (item_fields item) qb0 name of
                Inl e \<Rightarrow> (Inl e, arr)
              | Inr qb1 \<Rightarrow>
                  (let r = andWhere (predicates item);
                       (qb2, rest) = addAndWhereConditions qb1 (arr r);
                       arr' = arr(r := rest);
                       qb3 = addOrWhereConditions qb2 (orWhere (predicates item));
                       qb4 = addSearchConditions (formatter ext) dflt qb3 name
                               (search (predicates item));
                       made = drop (length (calls qb1)) (calls qb4)
                   in case (if made = [] then None else builderError ext made) of
                        Some e \<Rightarrow> (Inl e, arr')
                      | None \<Rightarrow>
                          (Inr \<lparr>request = item,
                                builder = qb_call (if many item then GetMany else GetOne) qb4\<rparr>,
                           arr'))))"

text \<open>
  The rest of \<open>_resolveQueueItem\<close>:
  \<open>promise.then(item.resolve, item.reject).finally(() => this._cache.delete(item.key))\<close>,
  run when the query in flight at position \<open>i\<close> settles.
\<close>

definition settle :: "nat \<Rightarrow> Settlement \<Rightarrow> State \<Rightarrow> State" where
  "settle i outcome s =
     (if i < length (inflight s)
      then (let item = request (inflight s ! i)
            in s\<lparr>invocations := invocations s @
                    [case outcome of
                       Fulfilled v \<Rightarrow> Invoked (resolve item) v
                     | Rejected e \<Rightarrow> Invoked (reject item) e],
                  cache := (cache s)(key item := None),
                  inflight := take i (inflight s) @ drop (Suc i) (inflight s)\<rparr>)
      else s)"


text \<open>
  \<open>_processQueue\<close>, in its three parts. First
  \<open>const queue = this._queue.splice(0, this._queue.length)\<close>.
\<close>

definition drainQueue :: "State \<Rightarrow> ChainableQueueItem list \<times> State" where
  "drainQueue s = (queue s, s\<lparr>queue := []\<rparr>)"

text \<open>
  The callback given to \<open>connection.transaction\<close>:
  \<open>queue.map(this._resolveQueueItem(entityManager))\<close>. The requests are taken in order,
  each finding the arrays as the ones before it left them. The promises \<open>map\<close> collects
  are dropped, a rejected one included: only the queries that were started stay behind.
\<close>

fun startQueries ::
  "Collaborators \<Rightarrow> LoaderSearchMethod \<Rightarrow> ChainableQueueItem list
     \<Rightarrow> (nat \<Rightarrow> ChainableWhereExpression list)
     \<Rightarrow> PendingQuery list \<times> (nat \<Rightarrow> ChainableWhereExpression list)" where
  "startQueries ext dflt [] arr = ([], arr)"
| "startQueries ext dflt (item # batch) arr =
     (case resolveQueueItem ext dflt item arr of
        (outcome, arr1) \<Rightarrow>
          (case startQueries ext dflt batch arr1 of
             (started, arr2) \<Rightarrow>
               ((case outcome of Inl e \<Rightarrow> [] | Inr p \<Rightarrow> [p]) @ started, arr2)))"

definition transactionCallback ::
  "Collaborators \<Rightarrow> ChainableQueueItem list \<Rightarrow> State \<Rightarrow> State" where
  "transactionCallback ext batch s =
     (case startQueries ext (defaultLoaderSearchMethod s) batch (arrays s) of
        (started, arr) \<Rightarrow> s\<lparr>inflight := inflight s @ started, arrays := arr\<rparr>)"

text \<open>The \<open>catch\<close> block: \<open>queue.forEach(q => { q.reject(e); this._cache.delete(q.key) })\<close>.\<close>

definition rejectQueue :: "string \<Rightarrow> ChainableQueueItem list \<Rightarrow> State \<Rightarrow> State" where
  "rejectQueue e batch s =
     fold (\<lambda>q t. t\<lparr>invocations := invocations t @ [Invoked (reject q) e],
                    cache := (cache t)(key q := None)\<rparr>) batch s"

text \<open>
  \<open>connection.transaction\<close> belongs to TypeORM. What one call of it did is a parameter:
  it ran the callback and its promise was fulfilled; or its promise was rejected, either
  without the callback having run (the transaction could not be started) or after the
  callback had run (the commit failed).
\<close>

datatype TransactionOutcome =
    Committed
  | FailedBeforeCallback string
  | FailedAfterCallback string

definition processQueue :: "Collaborators \<Rightarrow> TransactionOutcome \<Rightarrow> State \<Rightarrow> State" where
  "processQueue ext tx s =
     (let (batch, s1) = drainQueue s
      in case tx of
           Committed \<Rightarrow> transactionCallback ext batch s1
         | FailedBeforeCallback e \<Rightarrow> rejectQueue e batch s1
         | FailedAfterCallback e \<Rightarrow> rejectQueue e batch (transactionCallback ext batch s1))"

text \<open>
  A scheduled immediate runs: \<open>() => this._processQueue()\<close>. An immediate that was
  cleared is no longer scheduled and does not run.
\<close>

definition runImmediate :: "Collaborators \<Rightarrow> TransactionOutcome \<Rightarrow> nat \<Rightarrow> State \<Rightarrow> State" where
  "runImmediate ext tx h s =
     (if h \<in> set (scheduled s)
      then processQueue ext tx (s\<lparr>scheduled := removeAll h (scheduled s)\<rparr>)
      else s)"








section \<open>Facts about the builder calls\<close>

lemma fold_qb_call:
  "fold (\<lambda>c q. qb_call (f c) q) xs qb = qb\<lparr>calls := calls qb @ map f xs\<rparr>"
  by (induction xs arbitrary: qb) (simp_all add: qb_call_def)

lemma qbWhere_eq:
  "qbWhere x = Where (fst (breakDownWhereExpression x)) (snd (breakDownWhereExpression x))"
  by (simp add: qbWhere_def split_beta)

lemma qbAndWhere_eq:
  "qbAndWhere x = AndWhere (fst (breakDownWhereExpression x)) (snd (breakDownWhereExpression x))"
  by (simp add: qbAndWhere_def split_beta)

lemma qbOrWhere_eq:
  "qbOrWhere x = OrWhere (fst (breakDownWhereExpression x)) (snd (breakDownWhereExpression x))"
  by (simp add: qbOrWhere_def split_beta)

lemma addAndWhereConditions_rest: "snd (addAndWhereConditions qb cs) = drop 1 cs"
  by (cases cs) simp_all

lemma resolveQueueItem_request:
  "fst (resolveQueueItem ext dflt item arr) = Inr p \<Longrightarrow> request p = item"
  by (auto simp add: resolveQueueItem_def Let_def split_beta
      split: sum.splits option.splits if_splits)

lemma resolveQueueItem_arrays:
  "snd (resolveQueueItem ext dflt item arr) =
     (case createTypeORMQueryBuilder (repositoryError ext) (entityName (entity item)) of
        Inl e \<Rightarrow> arr
      | Inr qb0 \<Rightarrow>
          (case createQuery ext (entityName (entity item)) (item_fields item) qb0
                  (entityName (entity item)) of
             Inl e \<Rightarrow> arr
           | Inr qb1 \<Rightarrow>
               arr(andWhere (predicates item) := drop 1 (arr (andWhere (predicates item))))))"
  using addAndWhereConditions_rest
  by (auto simp add: resolveQueueItem_def Let_def split_beta
      split: sum.splits option.splits if_splits)

section \<open>Cache lookup\<close>

text \<open>
  C1: when the fingerprint computed by \<open>processQueryMeta\<close> (the md5 of the JSON encoding of
  the where list and the parsed field tree) is a key of the cache, the returned meta has
  \<open>found = true\<close> and its \<open>item\<close> is the promise stored under that fingerprint. Nothing
  of the manager changes: the queue is as it was and no flush is cancelled or scheduled.
\<close>

theorem processQueryMeta_cache_hit:
  assumes "cache s (md5 (stringify (wher, graphqlFields info))) = Some p"
  shows "processQueryMeta graphqlFields stringify md5 info wher s =
     (\<lparr>meta_key = [], meta_fields = graphqlFields info, found = True, meta_item = Some p\<rparr>, s)"
  using assms by (simp add: processQueryMeta_def Let_def)

theorem processQueryMeta_cache_hit_witness:
  "cache (addCacheItem ''9f'' 7 (newManager (NumberMember 0) None))
      ((\<lambda>_. ''9f'') ((\<lambda>_. ''[[],null]'') ([], (\<lambda>_. None) ()))) = Some 7
   \<and> processQueryMeta (\<lambda>_. None) (\<lambda>_. ''[[],null]'') (\<lambda>_. ''9f'') () []
        (addCacheItem ''9f'' 7 (newManager (NumberMember 0) None)) =
     (\<lparr>meta_key = [], meta_fields = None, found = True, meta_item = Some 7\<rparr>,
      addCacheItem ''9f'' 7 (newManager (NumberMember 0) None))"
  using processQueryMeta_cache_hit [of "addCacheItem ''9f'' 7 (newManager (NumberMember 0) None)"
      "\<lambda>_. ''9f''" "\<lambda>_. ''[[],null]''" "[]" "\<lambda>_. None" "()" 7]
  by (simp add: addCacheItem_def newManager_def)

section \<open>Where conditions\<close>

text \<open>
  C6: for a non-empty list of AND conditions the first one reaches the builder through
  \<open>where\<close> and every later one through \<open>andWhere\<close>, in list order; every OR condition
  reaches it through \<open>orWhere\<close>, in list order; with an empty AND list the builder comes
  back as it was given.
\<close>

theorem where_conditions_call_order:
  "fst (addAndWhereConditions qb (c # cs)) =
     qb\<lparr>calls := calls qb @
        Where (fst (breakDownWhereExpression c)) (snd (breakDownWhereExpression c)) #
        map (\<lambda>x. AndWhere (fst (breakDownWhereExpression x)) (snd (breakDownWhereExpression x))) cs\<rparr>
   \<and> addAndWhereConditions qb [] = (qb, [])
   \<and> addOrWhereConditions qb os =
     qb\<lparr>calls := calls qb @
        map (\<lambda>x. OrWhere (fst (breakDownWhereExpression x)) (snd (breakDownWhereExpression x))) os\<rparr>"
proof -
  have a: "fst (addAndWhereConditions qb (c # cs)) =
      qb\<lparr>calls := calls qb @ qbWhere c # map qbAndWhere cs\<rparr>"
    by (simp add: fold_qb_call) (simp add: qb_call_def)
  have b: "addOrWhereConditions qb os = qb\<lparr>calls := calls qb @ map qbOrWhere os\<rparr>"
    by (simp add: addOrWhereConditions_def fold_qb_call)
  show ?thesis
    using a b by (simp add: qbOrWhere_eq qbAndWhere_eq qbWhere_eq)
qed

text \<open>
  C9: building the query of a request takes the first element off the \<open>andWhere\<close> array
  it is given: what is left is the array without its first position (an empty array stays
  empty). So once \<open>getRepository\<close> and the planner have returned, the array object of the
  request is its old content without the head, and no other array object is changed; when
  one of the two throws, query construction has not come to the conditions and every
  array is as it was. The request itself, with its \<open>orWhere\<close> and \<open>search\<close> lists, is
  what it was: a query that is started carries the request as given.
\<close>

theorem andWhere_head_shifted:
  "snd (addAndWhereConditions qb cs) = drop 1 cs
   \<and> snd (resolveQueueItem ext dflt item arr) =
       (case createTypeORMQueryBuilder (repositoryError ext) (entityName (entity item)) of
          Inl e \<Rightarrow> arr
        | Inr qb0 \<Rightarrow>
            (case createQuery ext (entityName (entity item)) (item_fields item) qb0
                    (entityName (entity item)) of
               Inl e \<Rightarrow> arr
             | Inr qb1 \<Rightarrow>
                 arr(andWhere (predicates item) := drop 1 (arr (andWhere (predicates item))))))
   \<and> (case fst (resolveQueueItem ext dflt item arr) of Inl e \<Rightarrow> item | Inr p \<Rightarrow> request p) = item"
proof -
  have "(case fst (resolveQueueItem ext dflt item arr) of Inl e \<Rightarrow> item | Inr p \<Rightarrow> request p) = item"
    by (cases "fst (resolveQueueItem ext dflt item arr)")
      (simp_all add: resolveQueueItem_request)
  then show ?thesis
    by (simp add: addAndWhereConditions_rest resolveQueueItem_arrays)
qed

text \<open>
  Two requests of one batch that hold the same array object: the first is built from both
  conditions, the second from what the first left, and the array ends up empty.
\<close>

lemma shared_andWhere_array_example:
  "(let arr = (\<lambda>r. [])(0 := [LoaderWhereExpression True ''a = 1'' None,
                              LoaderWhereExpression True ''b = 2'' None]);
        built = startQueries
          \<lparr>repositoryError = (\<lambda>n. None), createQuery = (\<lambda>name flds qb als. Inr qb),
           builderError = (\<lambda>cs. None),
           formatter = \<lparr>formatSearchColumns = (\<lambda>cols als cs. []),
                        getSearchMethodMapping = (\<lambda>m t. t)\<rparr>\<rparr>
          (NumberMember 0)
          [\<lparr>many = True, key = ''9f'', item_fields = None,
            predicates = \<lparr>andWhere = 0, orWhere = [], search = []\<rparr>,
            resolve = 0, reject = 1, entity = EntityName ''User''\<rparr>,
           \<lparr>many = False, key = ''2b'', item_fields = None,
            predicates = \<lparr>andWhere = 0, orWhere = [], search = []\<rparr>,
            resolve = 2, reject = 3, entity = EntityName ''User''\<rparr>]
          arr
    in map (\<lambda>p. calls (builder p)) (fst built) =
         [[Select [], Where (WhereString ''a = 1'') None, AndWhere (WhereString ''b = 2'') None,
           GetMany],
          [Select [], Where (WhereString ''b = 2'') None, GetOne]]
       \<and> snd built 0 = [])"
  by (simp add: Let_def resolveQueueItem_def createTypeORMQueryBuilder_def entityName_def
      addOrWhereConditions_def addSearchConditions_def formatSearchConditions_def qb_call_def
      qbWhere_def qbAndWhere_def)

section \<open>Search conditions\<close>

text \<open>
  Each search group becomes one clause: the formatter's LIKE expressions joined by
  \<open>OR\<close> inside parentheses, with one parameter \<open>searchText\<close>; the method handed to the
  formatter is the group's when it is given and truthy, the manager's default otherwise.
\<close>

lemma formatSearchConditions_clauses:
  "formatSearchConditions fmt dflt conds als =
     map (\<lambda>c. \<lparr>query = ''('' @ join '' OR ''
                   (formatSearchColumns fmt (searchColumns c) als (caseSensitive c)) @ '')'',
               params = [(''searchText'',
                   getSearchMethodMapping fmt (methodOrDefault (searchMethod c) dflt)
                     (searchText c))]\<rparr>) conds"
  by (simp add: formatSearchConditions_def formatSearchCondition_def)

text \<open>
  C7: the search text of a group is to be wildcard-placed according to the group's own
  search method. The group below asks for the method whose run-time value is \<open>0\<close> while
  the manager's default is the method \<open>1\<close>: the formatter is handed the default \<open>1\<close>, so
  the group's choice is lost. The clause itself has the stated form.
\<close>

theorem search_method_zero_uses_default:
  "formatSearchConditions fmt (NumberMember 1)
     [\<lparr>searchColumns = [Column ''email''], searchText = ''bob'',
       searchMethod = Some (NumberMember 0), caseSensitive = None\<rparr>] ''user''
   = [\<lparr>query = ''('' @ join '' OR '' (formatSearchColumns fmt [Column ''email''] ''user'' None) @ '')'',
       params = [(''searchText'', getSearchMethodMapping fmt (NumberMember 1) ''bob'')]\<rparr>]"
  by (simp add: formatSearchConditions_def formatSearchCondition_def methodOrDefault_def)

text \<open>
  C10: every compiled search group binds its text under the one parameter name
  \<open>searchText\<close>: the parameter objects of any number of groups all have exactly that key,
  and each group reaches the builder as one \<open>andWhere\<close> call carrying such an object, so
  the groups of one request are not given parameter names of their own.
\<close>

theorem search_groups_share_parameter_name:
  "map (\<lambda>c. map fst (params c)) (formatSearchConditions fmt dflt conds als)
     = replicate (length conds) [''searchText'']
   \<and> calls (addSearchConditions fmt dflt qb als conds) = calls qb @
       map (\<lambda>c. AndWhere
              (WhereString (''('' @ join '' OR ''
                 (formatSearchColumns fmt (searchColumns c) als (caseSensitive c)) @ '')''))
              (Some [(''searchText'',
                 getSearchMethodMapping fmt (methodOrDefault (searchMethod c) dflt) (searchText c))]))
         conds"
  by (simp add: formatSearchConditions_def formatSearchCondition_def addSearchConditions_def
      fold_qb_call map_replicate_const comp_def)

section \<open>Settlement of one request\<close>

text \<open>
  C8: when the query of a request in flight settles, fulfilled or rejected alike, the
  cache entry under the key stored in the request is deleted.
\<close>

theorem settle_deletes_cache_entry:
  assumes "i < length (inflight s)"
  shows "cache (settle i outcome s) (key (request (inflight s ! i))) = None"
  using assms by (simp add: settle_def Let_def)

theorem settle_deletes_cache_entry_witness:
  "(let s = processQueue \<lparr>repositoryError = (\<lambda>n. None), createQuery = (\<lambda>name flds qb als. Inr qb),
                builderError = (\<lambda>cs. None),
                formatter = \<lparr>formatSearchColumns = (\<lambda>cols als cs. []),
                             getSearchMethodMapping = (\<lambda>m t. t)\<rparr>\<rparr>
              Committed
              (addQueueItem
                 \<lparr>many = True, key = ''9f'', item_fields = None,
                  predicates = \<lparr>andWhere = 0, orWhere = [], search = []\<rparr>,
                  resolve = 0, reject = 1, entity = EntityName ''User''\<rparr>
                 (addCacheItem ''9f'' 7 (newManager (NumberMember 0) None)))
    in 0 < length (inflight s) \<and> cache s ''9f'' = Some 7
       \<and> key (request (inflight s ! 0)) = ''9f''
       \<and> cache (settle 0 (Rejected ''boom'') s) (key (request (inflight s ! 0))) = None)"
  using settle_deletes_cache_entry [of 0 "processQueue \<lparr>repositoryError = (\<lambda>n. None), createQuery = (\<lambda>name flds qb als. Inr qb),
                builderError = (\<lambda>cs. None),
                formatter = \<lparr>formatSearchColumns = (\<lambda>cols als cs. []),
                             getSearchMethodMapping = (\<lambda>m t. t)\<rparr>\<rparr>
              Committed
              (addQueueItem
                 \<lparr>many = True, key = ''9f'', item_fields = None,
                  predicates = \<lparr>andWhere = 0, orWhere = [], search = []\<rparr>,
                  resolve = 0, reject = 1, entity = EntityName ''User''\<rparr>
                 (addCacheItem ''9f'' 7 (newManager (NumberMember 0) None)))" "Rejected ''boom''"]
  by (simp add: Let_def processQueue_def drainQueue_def transactionCallback_def
      resolveQueueItem_def createTypeORMQueryBuilder_def entityName_def
      addOrWhereConditions_def addSearchConditions_def formatSearchConditions_def qb_call_def
      addQueueItem_def setImmediate_def addCacheItem_def newManager_def)

section \<open>Enqueueing and scheduling\<close>

lemma removeAll_tracked:
  "list_all (\<lambda>h'. Some h = Some h') xs \<Longrightarrow> removeAll h xs = []"
  by (induction xs) auto

lemma untracked_empty: "list_all (\<lambda>h. None = Some h) xs \<Longrightarrow> xs = []"
  by (cases xs) auto

text \<open>
  C2, as stated, at a concrete input: \<open>addQueueItem\<close> appends the request and schedules a
  flush, and it cancels nothing. After two calls in a row the flush scheduled by the first
  (handle \<open>0\<close>) is still scheduled beside the one scheduled by the second (handle \<open>1\<close>),
  so two flushes will run.
\<close>

theorem addQueueItem_keeps_scheduled_flush:
  "scheduled
     (addQueueItem
        \<lparr>many = False, key = ''2b'', item_fields = None,
         predicates = \<lparr>andWhere = 1, orWhere = [], search = []\<rparr>,
         resolve = 2, reject = 3, entity = EntityName ''Book''\<rparr>
        (addQueueItem
           \<lparr>many = True, key = ''9f'', item_fields = None,
            predicates = \<lparr>andWhere = 0, orWhere = [], search = []\<rparr>,
            resolve = 0, reject = 1, entity = EntityName ''User''\<rparr>
           (newManager (NumberMember 0) None))) = [0, 1]"
  by (simp add: addQueueItem_def setImmediate_def newManager_def)

text \<open>
  C2, amended: an enqueue made as a cache-missing \<open>processQueryMeta\<close> followed by
  \<open>addQueueItem\<close> appends the request to the live queue; \<open>processQueryMeta\<close> cancels
  the flush remembered in \<open>_immediate\<close> and \<open>addQueueItem\<close> schedules a new one. When
  every flush still scheduled beforehand is the remembered one, exactly one flush is
  scheduled afterwards, and it is again the remembered one, so a burst of such enqueues
  ends with a single scheduled flush.
\<close>

theorem enqueue_after_miss_one_flush:
  assumes "list_all (\<lambda>h. immediate s = Some h) (scheduled s)"
    and "cache s (md5 (stringify (wher, graphqlFields info))) = None"
  shows "queue (addQueueItem item (snd (processQueryMeta graphqlFields stringify md5 info wher s)))
           = queue s @ [item]
       \<and> scheduled (snd (processQueryMeta graphqlFields stringify md5 info wher s)) = []
       \<and> scheduled (addQueueItem item (snd (processQueryMeta graphqlFields stringify md5 info wher s)))
           = [next_immediate s]
       \<and> immediate (addQueueItem item (snd (processQueryMeta graphqlFields stringify md5 info wher s)))
           = Some (next_immediate s)
       \<and> list_all (\<lambda>h. immediate (addQueueItem item
                 (snd (processQueryMeta graphqlFields stringify md5 info wher s))) = Some h)
           (scheduled (addQueueItem item
                 (snd (processQueryMeta graphqlFields stringify md5 info wher s))))"
proof (cases "immediate s")
  case None
  with assms(1) have "scheduled s = []" by (simp add: untracked_empty)
  with None assms(2) show ?thesis
    by (simp add: processQueryMeta_def Let_def addQueueItem_def setImmediate_def)
next
  case (Some h)
  with assms(1) have "removeAll h (scheduled s) = []" by (simp add: removeAll_tracked)
  with Some assms(2) show ?thesis
    by (simp add: processQueryMeta_def Let_def addQueueItem_def setImmediate_def
        clearImmediate_def)
qed

theorem enqueue_after_miss_one_flush_witness:
  "(let s = addQueueItem
                 \<lparr>many = True, key = ''9f'', item_fields = None,
                  predicates = \<lparr>andWhere = 0, orWhere = [], search = []\<rparr>,
                  resolve = 0, reject = 1, entity = EntityName ''User''\<rparr>
                 (newManager (NumberMember 0) None);
        s' = addQueueItem
               \<lparr>many = False, key = ''2b'', item_fields = None,
                predicates = \<lparr>andWhere = 1, orWhere = [], search = []\<rparr>,
                resolve = 2, reject = 3, entity = EntityName ''Book''\<rparr>
               (snd (processQueryMeta (\<lambda>_. None) (\<lambda>_. ''[[],null]'') (\<lambda>_. ''2b'') () [] s))
    in scheduled s = [0] \<and> immediate s = Some 0
       \<and> cache s ''2b'' = None
       \<and> map key (queue s') = [''9f'', ''2b'']
       \<and> scheduled s' = [1] \<and> immediate s' = Some 1)"
  using enqueue_after_miss_one_flush [of "addQueueItem
                 \<lparr>many = True, key = ''9f'', item_fields = None,
                  predicates = \<lparr>andWhere = 0, orWhere = [], search = []\<rparr>,
                  resolve = 0, reject = 1, entity = EntityName ''User''\<rparr>
                 (newManager (NumberMember 0) None)"
      "\<lambda>_. ''2b''" "\<lambda>_. ''[[],null]''" "[]" "\<lambda>_. None" "()"
      "\<lparr>many = False, key = ''2b'', item_fields = None,
                predicates = \<lparr>andWhere = 1, orWhere = [], search = []\<rparr>,
                resolve = 2, reject = 3, entity = EntityName ''Book''\<rparr>"]
  by (simp add: Let_def addQueueItem_def setImmediate_def newManager_def)

section \<open>The flush\<close>

lemma rejectQueue_invocations:
  "invocations (rejectQueue e batch s) = invocations s @ map (\<lambda>q. Invoked (reject q) e) batch"
  unfolding rejectQueue_def by (induction batch arbitrary: s) simp_all

lemma rejectQueue_cache:
  "cache (rejectQueue e batch s) k = (if k \<in> key ` set batch then None else cache s k)"
  unfolding rejectQueue_def by (induction batch arbitrary: s) auto


lemma transactionCallback_frame:
  "queue (transactionCallback ext batch s) = queue s"
  "invocations (transactionCallback ext batch s) = invocations s"
  "cache (transactionCallback ext batch s) = cache s"
  "inflight (transactionCallback ext batch s) =
     inflight s @ fst (startQueries ext (defaultLoaderSearchMethod s) batch (arrays s))"
  by (simp_all add: transactionCallback_def split_beta)



text \<open>
  C4: when the transaction of a flush fails with an error, before or after its callback
  ran, the \<open>reject\<close> callback of every request taken into that flush is called with that
  error, in queue order and with no other call, and the cache has no entry left under the
  key of any of these requests.
\<close>

theorem transaction_failure_rejects_batch:
  assumes "tx = FailedBeforeCallback e \<or> tx = FailedAfterCallback e"
  shows "invocations (processQueue ext tx s) =
           invocations s @ map (\<lambda>q. Invoked (reject q) e) (queue s)
         \<and> (\<forall>q \<in> set (queue s). cache (processQueue ext tx s) (key q) = None)"
  using assms
  by (auto simp add: processQueue_def drainQueue_def transactionCallback_frame Let_def
      rejectQueue_invocations rejectQueue_cache)

theorem transaction_failure_rejects_batch_witness:
  "(let s = addQueueItem
              \<lparr>many = False, key = ''2b'', item_fields = None,
               predicates = \<lparr>andWhere = 1, orWhere = [], search = []\<rparr>,
               resolve = 2, reject = 3, entity = EntityName ''Book''\<rparr>
              (addQueueItem
                 \<lparr>many = True, key = ''9f'', item_fields = None,
                  predicates = \<lparr>andWhere = 0, orWhere = [], search = []\<rparr>,
                  resolve = 0, reject = 1, entity = EntityName ''User''\<rparr>
                 (addCacheItem ''2b'' 8 (addCacheItem ''9f'' 7 (newManager (NumberMember 0) None))));
        s' = processQueue \<lparr>repositoryError = (\<lambda>n. None), createQuery = (\<lambda>name flds qb als. Inr qb),
                builderError = (\<lambda>cs. None),
                formatter = \<lparr>formatSearchColumns = (\<lambda>cols als cs. []),
                             getSearchMethodMapping = (\<lambda>m t. t)\<rparr>\<rparr>
               (FailedBeforeCallback ''connection lost'') s
    in cache s ''9f'' = Some 7 \<and> cache s ''2b'' = Some 8
       \<and> invocations s' = [Invoked 1 ''connection lost'', Invoked 3 ''connection lost'']
       \<and> cache s' ''9f'' = None \<and> cache s' ''2b'' = None)"
  using transaction_failure_rejects_batch [of "FailedBeforeCallback ''connection lost''" "''connection lost''"
      "\<lparr>repositoryError = (\<lambda>n. None), createQuery = (\<lambda>name flds qb als. Inr qb),
                builderError = (\<lambda>cs. None),
                formatter = \<lparr>formatSearchColumns = (\<lambda>cols als cs. []),
                             getSearchMethodMapping = (\<lambda>m t. t)\<rparr>\<rparr>"
      "addQueueItem
              \<lparr>many = False, key = ''2b'', item_fields = None,
               predicates = \<lparr>andWhere = 1, orWhere = [], search = []\<rparr>,
               resolve = 2, reject = 3, entity = EntityName ''Book''\<rparr>
              (addQueueItem
                 \<lparr>many = True, key = ''9f'', item_fields = None,
                  predicates = \<lparr>andWhere = 0, orWhere = [], search = []\<rparr>,
                  resolve = 0, reject = 1, entity = EntityName ''User''\<rparr>
                 (addCacheItem ''2b'' 8 (addCacheItem ''9f'' 7 (newManager (NumberMember 0) None))))"]
  by (simp add: Let_def addQueueItem_def setImmediate_def addCacheItem_def newManager_def)

section \<open>How often a request is settled\<close>
















end
